theory Spec2Isabelle
  imports Main "HOL-Library.Word"
begin

section \<open>Python values\<close>

text \<open>
  A Python \<open>str\<close> is a sequence of Unicode code points, so it is modelled as a list of
  natural numbers; \<open>lit\<close> turns an ASCII literal of the source into that form.
  \<open>bytes\<close> are lists of 8-bit words.
\<close>

type_synonym pystr = "nat list"

type_synonym bytes = "8 word list"

definition lit :: "string \<Rightarrow> pystr" where
  "lit s = map of_char s"

text \<open>
  \<open>str.isspace\<close> on one code point: the code points CPython lists as whitespace
  (U+0009..U+000D, U+001C..U+0020, U+0085, U+00A0, U+1680, U+2000..U+200A, U+2028,
  U+2029, U+202F, U+205F, U+3000).
\<close>

definition isspace :: "nat \<Rightarrow> bool" where
  "isspace c \<longleftrightarrow>
     (9 \<le> c \<and> c \<le> 13) \<or> (28 \<le> c \<and> c \<le> 32) \<or> c = 133 \<or> c = 160 \<or> c = 5760 \<or>
     (8192 \<le> c \<and> c \<le> 8202) \<or> c = 8232 \<or> c = 8233 \<or> c = 8239 \<or> c = 8287 \<or> c = 12288"

text \<open>\<open>s.strip()\<close>: leading and trailing whitespace removed.\<close>

definition strip :: "pystr \<Rightarrow> pystr" where
  "strip s = rev (dropWhile isspace (rev (dropWhile isspace s)))"

section \<open>Request and response models (the pydantic classes of main.py)\<close>

record TranslationRequest =
  "text" :: pystr
  source_lang :: pystr
  target_lang :: pystr

record TranslationResponse =
  translated_text :: pystr
  original_text :: pystr
  source_lang :: pystr
  target_lang :: pystr
  status :: pystr

record TTSRequest =
  "text" :: pystr
  target_lang :: pystr

record TTSResponse =
  audio_data :: pystr
  target_lang :: pystr
  status :: pystr

record SpeechRecognitionResponse =
  recognized_text :: pystr
  source_lang :: pystr
  detected_lang :: "pystr option"
  status :: pystr

text \<open>
  What a handler hands back to FastAPI. The three \<open>/api\<close> POST handlers return an
  instance of their response model; \<open>get_languages\<close>, \<open>root\<close> and \<open>health_check\<close>
  return a dict, modelled by one constructor each that lists the dict's values:
  \<open>Languages languages status\<close>, \<open>Root message status endpoints\<close>,
  \<open>Health status message\<close>.
\<close>

datatype body =
    Translation TranslationResponse
  | SpeechRecognition SpeechRecognitionResponse
  | TTS TTSResponse
  | Languages "(pystr \<times> pystr) list" pystr
  | Root pystr pystr "(pystr \<times> pystr) list"
  | Health pystr pystr

text \<open>
  A handler either returns a body, which FastAPI sends with status 200, or raises
  \<open>HTTPException(status_code, detail)\<close>, which FastAPI sends with that status code and
  the body \<open>{"detail": detail}\<close>.
\<close>

datatype response = Returned body | Raised nat pystr

fun status_code :: "response \<Rightarrow> nat" where
  "status_code (Returned b) = 200"
| "status_code (Raised c d) = c"




definition is_2xx :: "nat \<Rightarrow> bool" where
  "is_2xx c \<longleftrightarrow> 200 \<le> c \<and> c < 300"

section \<open>Exceptions, collaborators and the world\<close>

text \<open>
  The exceptions the handlers tell apart: FastAPI's \<open>HTTPException\<close> (a subclass of
  \<open>Exception\<close>), \<open>sr.UnknownValueError\<close>, and any other subclass of \<open>Exception\<close>,
  which carries a description of the failure.
\<close>

datatype exn = HTTPException nat pystr | UnknownValueError | OtherError pystr

text \<open>
  The libraries main.py calls are parameters of the model. Each field is the outcome of
  one library call as a function of its arguments: \<open>Inl\<close> the exception it raises,
  \<open>Inr\<close> the value it returns.
  \<^item> \<open>translator_translate text src dest\<close>: \<open>translator.translate(text, src=, dest=).text\<close>;
  \<^item> \<open>audio_record content\<close>: \<open>sr.AudioFile(path)\<close> and \<open>recognizer.record(source)\<close> on a
    file holding \<open>content\<close>;
  \<^item> \<open>recognize_google audio_data language\<close>;
  \<^item> \<open>detect text\<close>: langdetect's \<open>detect\<close>;
  \<^item> \<open>gTTS_init text lang slow\<close>: the constructor \<open>gTTS(text=, lang=, slow=)\<close>, \<open>Some\<close> the
    exception it raises;
  \<^item> \<open>gTTS_save text lang slow\<close>: the audio that \<open>tts.save\<close> writes;
  \<^item> \<open>tempfile_name suffix files\<close>: the name \<open>tempfile.NamedTemporaryFile\<close> picks;
  \<^item> \<open>b64encode data\<close>: \<open>base64.b64encode(data).decode('utf-8')\<close>;
  \<^item> \<open>exc_str e\<close>: \<open>str(e)\<close>.
\<close>

record env =
  translator_translate :: "pystr \<Rightarrow> pystr \<Rightarrow> pystr \<Rightarrow> exn + pystr"
  audio_record :: "bytes \<Rightarrow> exn + bytes"
  recognize_google :: "bytes \<Rightarrow> pystr \<Rightarrow> exn + pystr"
  detect :: "pystr \<Rightarrow> exn + pystr"
  gTTS_init :: "pystr \<Rightarrow> pystr \<Rightarrow> bool \<Rightarrow> exn option"
  gTTS_save :: "pystr \<Rightarrow> pystr \<Rightarrow> bool \<Rightarrow> exn + bytes"
  tempfile_name :: "pystr \<Rightarrow> (pystr \<rightharpoonup> bytes) \<Rightarrow> exn + pystr"
  b64encode :: "bytes \<Rightarrow> pystr"
  exc_str :: "exn \<Rightarrow> pystr"

text \<open>
  What a request can change outside the handler: the files on disk, and the calls made
  to the four collaborators (translation, recognition, detection, synthesis), in order.
\<close>

datatype call =
    Translate pystr pystr pystr
  | Recognize bytes pystr
  | Detect pystr
  | Synthesize pystr pystr bool

record world =
  files :: "pystr \<rightharpoonup> bytes"
  calls :: "call list"

text \<open>
  A statement of a handler: from a world, an exception or a value, and the world it
  leaves. What an aborted statement sequence did before the exception stays done.
\<close>

type_synonym 'a action = "world \<Rightarrow> (exn + 'a) \<times> world"

definition return :: "'a \<Rightarrow> 'a action" where
  "return x w = (Inr x, w)"

definition raise :: "exn \<Rightarrow> 'a action" where
  "raise e w = (Inl e, w)"

definition bind :: "'a action \<Rightarrow> ('a \<Rightarrow> 'b action) \<Rightarrow> 'b action" where
  "bind m f w = (case m w of (Inl e, w') \<Rightarrow> (Inl e, w') | (Inr x, w') \<Rightarrow> f x w')"

definition logged :: "call \<Rightarrow> (exn + 'a) \<Rightarrow> 'a action" where
  "logged c r w = (r, w\<lparr>calls := calls w @ [c]\<rparr>)"

definition call_translate :: "env \<Rightarrow> pystr \<Rightarrow> pystr \<Rightarrow> pystr \<Rightarrow> pystr action" where
  "call_translate env t src dest = logged (Translate t src dest) (translator_translate env t src dest)"

definition call_recognize :: "env \<Rightarrow> bytes \<Rightarrow> pystr \<Rightarrow> pystr action" where
  "call_recognize env a language = logged (Recognize a language) (recognize_google env a language)"

definition call_detect :: "env \<Rightarrow> pystr \<Rightarrow> pystr action" where
  "call_detect env t = logged (Detect t) (detect env t)"

definition call_gTTS :: "env \<Rightarrow> pystr \<Rightarrow> pystr \<Rightarrow> bool \<Rightarrow> (pystr \<times> pystr \<times> bool) action" where
  "call_gTTS env t lang slow =
     logged (Synthesize t lang slow)
       (case gTTS_init env t lang slow of Some e \<Rightarrow> Inl e | None \<Rightarrow> Inr (t, lang, slow))"

text \<open>
  \<open>NamedTemporaryFile(suffix=, delete=False)\<close>: a new, empty file under the name the
  runtime picks; leaving the \<open>with\<close> block closes it and, with \<open>delete=False\<close>, keeps it.
\<close>

definition NamedTemporaryFile :: "env \<Rightarrow> pystr \<Rightarrow> pystr action" where
  "NamedTemporaryFile env suffix w =
     (case tempfile_name env suffix (files w) of
        Inl e \<Rightarrow> (Inl e, w)
      | Inr p \<Rightarrow> (Inr p, w\<lparr>files := (files w)(p \<mapsto> [])\<rparr>))"

text \<open>
  \<open>temp_audio.write(content)\<close>, and \<open>open(path, 'rb').read()\<close>. The handlers' local
  variable \<open>text\<close> is written \<open>t\<close> below.
\<close>

definition write_file :: "pystr \<Rightarrow> bytes \<Rightarrow> unit action" where
  "write_file p content w = (Inr (), w\<lparr>files := (files w)(p \<mapsto> content)\<rparr>)"

definition read_file :: "pystr \<Rightarrow> bytes action" where
  "read_file p w =
     (case files w p of
        None \<Rightarrow> (Inl (OtherError (lit ''No such file or directory'')), w)
      | Some content \<Rightarrow> (Inr content, w))"

text \<open>\<open>os.unlink(path)\<close>.\<close>

definition unlink :: "pystr \<Rightarrow> unit action" where
  "unlink p w =
     (case files w p of
        None \<Rightarrow> (Inl (OtherError (lit ''No such file or directory'')), w)
      | Some content \<Rightarrow> (Inr (), w\<lparr>files := (files w)(p := None)\<rparr>))"

text \<open>\<open>sr.AudioFile(path)\<close> and \<open>recognizer.record(source)\<close>.\<close>

definition call_record :: "env \<Rightarrow> pystr \<Rightarrow> bytes action" where
  "call_record env p = bind (read_file p) (\<lambda>content w. (audio_record env content, w))"

text \<open>\<open>tts.save(path)\<close>: the synthesized audio is written to the file.\<close>

definition call_save :: "env \<Rightarrow> pystr \<times> pystr \<times> bool \<Rightarrow> pystr \<Rightarrow> unit action" where
  "call_save env tts p =
     (case tts of (t, lang, slow) \<Rightarrow>
        bind (\<lambda>w. (gTTS_save env t lang slow, w)) (\<lambda>data. write_file p data))"

section \<open>The handlers\<close>

text \<open>The 22 official Indian languages with their Google Translate codes.\<close>

definition indian_languages :: "(pystr \<times> pystr) list" where
  "indian_languages =
     [(lit ''Assamese'', lit ''as''),
      (lit ''Bengali'', lit ''bn''),
      (lit ''Bodo'', lit ''brx''),
      (lit ''Dogri'', lit ''doi''),
      (lit ''Gujarati'', lit ''gu''),
      (lit ''Hindi'', lit ''hi''),
      (lit ''Kannada'', lit ''kn''),
      (lit ''Kashmiri'', lit ''ks''),
      (lit ''Konkani'', lit ''kok''),
      (lit ''Maithili'', lit ''mai''),
      (lit ''Malayalam'', lit ''ml''),
      (lit ''Manipuri'', lit ''mni''),
      (lit ''Marathi'', lit ''mr''),
      (lit ''Nepali'', lit ''ne''),
      (lit ''Odia'', lit ''or''),
      (lit ''Punjabi'', lit ''pa''),
      (lit ''Sanskrit'', lit ''sa''),
      (lit ''Santali'', lit ''sat''),
      (lit ''Sindhi'', lit ''sd''),
      (lit ''Tamil'', lit ''ta''),
      (lit ''Telugu'', lit ''te''),
      (lit ''Urdu'', lit ''ur'')]"

definition root :: "world \<Rightarrow> response \<times> world" where
  "root w =
     (Returned (Root (lit ''Voice Translation FastAPI Backend'') (lit ''running'')
        [(lit ''translate'', lit ''/api/translate''),
         (lit ''speech_to_text'', lit ''/api/speech-to-text''),
         (lit ''text_to_speech'', lit ''/api/text-to-speech''),
         (lit ''languages'', lit ''/api/languages''),
         (lit ''health'', lit ''/health'')]), w)"

text \<open>The body of the \<open>try\<close> of \<open>translate_text\<close>.\<close>

definition translate_text_try :: "env \<Rightarrow> TranslationRequest \<Rightarrow> TranslationResponse action" where
  "translate_text_try env request =
     (let t = strip (TranslationRequest.text request) in
      if t = [] then raise (HTTPException 400 (lit ''Text is required''))
      else
        bind (call_translate env t
                (TranslationRequest.source_lang request)
                (TranslationRequest.target_lang request)) (\<lambda>translated.
        return \<lparr>translated_text = translated,
                original_text = t,
                TranslationResponse.source_lang = TranslationRequest.source_lang request,
                TranslationResponse.target_lang = TranslationRequest.target_lang request,
                TranslationResponse.status = lit ''success''\<rparr>))"

text \<open>\<open>translate_text\<close>: the \<open>try\<close> with its \<open>except Exception as e\<close>.\<close>

definition translate_text :: "env \<Rightarrow> TranslationRequest \<Rightarrow> world \<Rightarrow> response \<times> world" where
  "translate_text env request w =
     (case translate_text_try env request w of
        (Inr r, w') \<Rightarrow> (Returned (Translation r), w')
      | (Inl e, w') \<Rightarrow> (Raised 500 (lit ''Translation failed: '' @ exc_str env e), w'))"

text \<open>The body of the \<open>try\<close> of \<open>speech_to_text\<close>; \<open>content\<close> is what \<open>audio.read()\<close> gives.\<close>

definition speech_to_text_try :: "env \<Rightarrow> bytes \<Rightarrow> pystr \<Rightarrow> SpeechRecognitionResponse action" where
  "speech_to_text_try env content src =
     bind (NamedTemporaryFile env (lit ''.wav'')) (\<lambda>temp_audio_path.
     bind (write_file temp_audio_path content) (\<lambda>_.
     bind (call_record env temp_audio_path) (\<lambda>audio_data.
     bind (call_recognize env audio_data (src @ lit ''-IN'')) (\<lambda>t.
     bind (if t \<noteq> [] then bind (call_detect env t) (\<lambda>d. return (Some d)) else return None)
          (\<lambda>detected.
     bind (unlink temp_audio_path) (\<lambda>_.
     return \<lparr>recognized_text = t,
             SpeechRecognitionResponse.source_lang = src,
             detected_lang = detected,
             SpeechRecognitionResponse.status = lit ''success''\<rparr>))))))"

text \<open>
  \<open>speech_to_text\<close>: the \<open>try\<close> with \<open>except sr.UnknownValueError\<close> first and
  \<open>except Exception as e\<close> second.
\<close>

definition speech_to_text :: "env \<Rightarrow> bytes \<Rightarrow> pystr \<Rightarrow> world \<Rightarrow> response \<times> world" where
  "speech_to_text env content src w =
     (case speech_to_text_try env content src w of
        (Inr r, w') \<Rightarrow> (Returned (SpeechRecognition r), w')
      | (Inl UnknownValueError, w') \<Rightarrow> (Raised 400 (lit ''Could not understand the speech''), w')
      | (Inl e, w') \<Rightarrow> (Raised 500 (lit ''Speech recognition failed: '' @ exc_str env e), w'))"

text \<open>The body of the \<open>try\<close> of \<open>text_to_speech\<close>.\<close>

definition text_to_speech_try :: "env \<Rightarrow> TTSRequest \<Rightarrow> TTSResponse action" where
  "text_to_speech_try env request =
     (let t = strip (TTSRequest.text request) in
      if t = [] then raise (HTTPException 400 (lit ''Text is required''))
      else
        bind (call_gTTS env t (TTSRequest.target_lang request) False) (\<lambda>tts.
        bind (NamedTemporaryFile env (lit ''.mp3'')) (\<lambda>temp_audio_path.
        bind (call_save env tts temp_audio_path) (\<lambda>_.
        bind (read_file temp_audio_path) (\<lambda>data.
        bind (unlink temp_audio_path) (\<lambda>_.
        return \<lparr>audio_data = b64encode env data,
                TTSResponse.target_lang = TTSRequest.target_lang request,
                TTSResponse.status = lit ''success''\<rparr>))))))"

text \<open>\<open>text_to_speech\<close>: the \<open>try\<close> with its \<open>except Exception as e\<close>.\<close>

definition text_to_speech :: "env \<Rightarrow> TTSRequest \<Rightarrow> world \<Rightarrow> response \<times> world" where
  "text_to_speech env request w =
     (case text_to_speech_try env request w of
        (Inr r, w') \<Rightarrow> (Returned (TTS r), w')
      | (Inl e, w') \<Rightarrow> (Raised 500 (lit ''Text-to-speech failed: '' @ exc_str env e), w'))"

definition get_languages :: "world \<Rightarrow> response \<times> world" where
  "get_languages w = (Returned (Languages indian_languages (lit ''success'')), w)"

definition health_check :: "world \<Rightarrow> response \<times> world" where
  "health_check w =
     (Returned (Health (lit ''FastAPI Voice Translation service is running'')
        (lit ''All systems operational'')), w)"

text \<open>The routes of \<open>app\<close>: one request per decorated handler.\<close>

datatype request =
    GET_root
  | POST_translate TranslationRequest
  | POST_speech_to_text bytes pystr
  | POST_text_to_speech TTSRequest
  | GET_languages
  | GET_health


section \<open>Sample collaborators and inputs\<close>

text \<open>
  Stand-ins for the libraries, to run the handlers on concrete inputs: translation
  echoes its text; an empty recording is not understood, the recording \<open>[1]\<close> is heard
  as \<open>123\<close> and any other as \<open>hello\<close>; detection finds no features in \<open>123\<close> and says
  \<open>en\<close> otherwise; synthesis fails for the language code \<open>xx\<close>.
\<close>

definition sample_env :: env where
  "sample_env =
     \<lparr>translator_translate = (\<lambda>t src dest. Inr t),
      audio_record = (\<lambda>content. Inr content),
      recognize_google = (\<lambda>a language.
        if a = [] then Inl UnknownValueError
        else if a = [1] then Inr (lit ''123'')
        else Inr (lit ''hello'')),
      detect = (\<lambda>t.
        if t = lit ''123'' then Inl (OtherError (lit ''No features in text.''))
        else Inr (lit ''en'')),
      gTTS_init = (\<lambda>t lang slow. None),
      gTTS_save = (\<lambda>t lang slow.
        if lang = lit ''xx'' then Inl (OtherError (lit ''Language not supported''))
        else Inr [73, 68, 51]),
      tempfile_name = (\<lambda>suffix fs. Inr (lit ''/tmp/tmp0'' @ suffix)),
      b64encode = (\<lambda>data. lit ''SUQz''),
      exc_str = (\<lambda>e. case e of
          HTTPException c d \<Rightarrow> d
        | UnknownValueError \<Rightarrow> []
        | OtherError m \<Rightarrow> m)\<rparr>"

definition empty_world :: world where
  "empty_world = \<lparr>files = Map.empty, calls = []\<rparr>"

section \<open>Basic facts\<close>

lemma lit_Nil [simp]: "lit [] = []"
  by (simp add: lit_def)

lemma lit_eq_Nil [simp]: "lit s = [] \<longleftrightarrow> s = []"
  by (simp add: lit_def)

lemma strip_Nil [simp]: "strip [] = []"
  by (simp add: strip_def)

lemma lit_eq_iff [simp]: "lit a = lit b \<longleftrightarrow> a = b"
  by (simp add: lit_def inj_map_eq_map inj_on_def)

lemma Nil_eq_lit [simp]: "[] = lit s \<longleftrightarrow> s = []"
  by (simp add: lit_def)

lemma lit_append: "lit a @ lit b = lit (a @ b)"
  by (simp add: lit_def)

lemma strip_blank: "strip (lit ''  '') = []"
  by (simp add: strip_def lit_def isspace_def)


lemma strip_padded_Hello: "strip (lit '' Hello '') = lit ''Hello''"
  by (simp add: strip_def lit_def isspace_def)

lemmas action_defs =
  return_def raise_def bind_def logged_def call_translate_def call_recognize_def
  call_detect_def call_gTTS_def NamedTemporaryFile_def write_file_def read_file_def
  unlink_def call_record_def call_save_def

lemmas handler_defs =
  translate_text_def translate_text_try_def speech_to_text_def speech_to_text_try_def
  text_to_speech_def text_to_speech_try_def get_languages_def root_def health_check_def

section \<open>Empty text\<close>

text \<open>
  C1 (the code departs from it). The claim: a request to \<open>/api/translate\<close> or
  \<open>/api/text-to-speech\<close> whose text is empty or all whitespace is answered with status
  400 and the detail \<open>Text is required\<close>. The handlers raise that \<open>HTTPException\<close> inside
  their \<open>try\<close>, whose \<open>except Exception\<close> catches it: with any collaborators and in any
  world, the empty text of the spec's scenario and a text of two spaces are both
  answered with status 500, the detail being the handler's failure prefix followed by
  \<open>str\<close> of the caught exception.
\<close>

theorem blank_text_answered_500:
  "fst (translate_text env
          \<lparr>TranslationRequest.text = [], source_lang = lit ''en'', target_lang = lit ''hi''\<rparr> w)
     = Raised 500 (lit ''Translation failed: ''
                     @ exc_str env (HTTPException 400 (lit ''Text is required''))) \<and>
   fst (text_to_speech env \<lparr>TTSRequest.text = lit ''  '', target_lang = lit ''hi''\<rparr> w)
     = Raised 500 (lit ''Text-to-speech failed: ''
                     @ exc_str env (HTTPException 400 (lit ''Text is required'')))"
  by (simp add: handler_defs action_defs Let_def strip_blank)

text \<open>
  C10. A request to \<open>/api/translate\<close> or \<open>/api/text-to-speech\<close> whose text is empty after
  trimming is rejected (the status is not 2xx) and leaves the world as it found it: no
  collaborator call is logged and no file is created.
\<close>

theorem blank_text_rejected_without_effect:
  "(strip (TranslationRequest.text treq) = [] \<longrightarrow>
      snd (translate_text env treq w) = w \<and>
      \<not> is_2xx (status_code (fst (translate_text env treq w)))) \<and>
   (strip (TTSRequest.text sreq) = [] \<longrightarrow>
      snd (text_to_speech env sreq w) = w \<and>
      \<not> is_2xx (status_code (fst (text_to_speech env sreq w))))"
  by (simp add: handler_defs action_defs Let_def is_2xx_def)

theorem blank_text_rejected_without_effect_witness:
  "strip (lit ''  '') = [] \<and>
   snd (translate_text sample_env
          \<lparr>TranslationRequest.text = lit ''  '', source_lang = lit ''en'', target_lang = lit ''hi''\<rparr>
          empty_world) = empty_world \<and>
   \<not> is_2xx (status_code (fst (translate_text sample_env
          \<lparr>TranslationRequest.text = lit ''  '', source_lang = lit ''en'', target_lang = lit ''hi''\<rparr>
          empty_world))) \<and>
   snd (text_to_speech sample_env \<lparr>TTSRequest.text = lit ''  '', target_lang = lit ''hi''\<rparr>
          empty_world) = empty_world \<and>
   \<not> is_2xx (status_code (fst (text_to_speech sample_env
          \<lparr>TTSRequest.text = lit ''  '', target_lang = lit ''hi''\<rparr> empty_world)))"
  using blank_text_rejected_without_effect
    [of "\<lparr>TranslationRequest.text = lit ''  '', source_lang = lit ''en'', target_lang = lit ''hi''\<rparr>"
        sample_env empty_world "\<lparr>TTSRequest.text = lit ''  '', target_lang = lit ''hi''\<rparr>"]
  by (simp add: strip_blank)

section \<open>Translation\<close>



text \<open>
  C3, as the claim states it, fails: \<open>original_text\<close> is the trimmed text, so a request
  whose text is \<open>Hello\<close> between two spaces, with source and target both \<open>hi\<close>, succeeds
  and echoes \<open>Hello\<close> without the spaces.
\<close>

theorem original_text_exact_counterexample:
  "TranslationRequest.text
     \<lparr>TranslationRequest.text = lit '' Hello '', source_lang = lit ''hi'', target_lang = lit ''hi''\<rparr>
     \<noteq> [] \<and>
   fst (translate_text sample_env
     \<lparr>TranslationRequest.text = lit '' Hello '', source_lang = lit ''hi'', target_lang = lit ''hi''\<rparr>
     empty_world) =
     Returned (Translation
       \<lparr>translated_text = lit ''Hello'', original_text = lit ''Hello'',
        TranslationResponse.source_lang = lit ''hi'', TranslationResponse.target_lang = lit ''hi'',
        TranslationResponse.status = lit ''success''\<rparr>) \<and>
   lit ''Hello'' \<noteq> lit '' Hello ''"
  by (simp add: handler_defs action_defs Let_def strip_padded_Hello sample_env_def)

text \<open>
  C3, amended. For every non-empty text, a successful (2xx) response of \<open>/api/translate\<close>
  with identical \<open>source_lang\<close> and \<open>target_lang\<close> is a translation result whose \<open>status\<close>
  is \<open>success\<close> and whose \<open>original_text\<close> is the request's text with leading and trailing
  whitespace removed.
\<close>

theorem original_text_is_stripped_text:
  "TranslationRequest.text request \<noteq> [] \<Longrightarrow>
   TranslationRequest.source_lang request = TranslationRequest.target_lang request \<Longrightarrow>
   is_2xx (status_code (fst (translate_text env request w))) \<Longrightarrow>
   \<exists>r. fst (translate_text env request w) = Returned (Translation r) \<and>
       TranslationResponse.status r = lit ''success'' \<and>
       original_text r = strip (TranslationRequest.text request)"
  by (auto simp add: handler_defs action_defs Let_def is_2xx_def
      split: sum.splits prod.splits if_splits)

theorem original_text_is_stripped_text_witness:
  "lit '' Hello '' \<noteq> [] \<and>
   is_2xx (status_code (fst (translate_text sample_env
     \<lparr>TranslationRequest.text = lit '' Hello '', source_lang = lit ''hi'', target_lang = lit ''hi''\<rparr>
     empty_world))) \<and>
   (\<exists>r. fst (translate_text sample_env
     \<lparr>TranslationRequest.text = lit '' Hello '', source_lang = lit ''hi'', target_lang = lit ''hi''\<rparr>
     empty_world) = Returned (Translation r) \<and>
       TranslationResponse.status r = lit ''success'' \<and>
       original_text r = lit ''Hello'')"
proof -
  let ?request =
    "\<lparr>TranslationRequest.text = lit '' Hello '', source_lang = lit ''hi'', target_lang = lit ''hi''\<rparr>"
  have nonempty: "TranslationRequest.text ?request \<noteq> []"
    by simp
  have same: "TranslationRequest.source_lang ?request = TranslationRequest.target_lang ?request"
    by simp
  have ok: "is_2xx (status_code (fst (translate_text sample_env ?request empty_world)))"
    by (simp add: handler_defs action_defs Let_def strip_padded_Hello sample_env_def is_2xx_def)
  from original_text_is_stripped_text [OF nonempty same ok] ok
  show ?thesis
    by (simp add: strip_padded_Hello)
qed


section \<open>Speech to text\<close>



text \<open>
  C5. In \<open>/api/speech-to-text\<close>, an exception raised by a step of the \<open>try\<close> (naming the
  temporary file, loading the audio, recognition, detection) is the exception the \<open>try\<close>
  ends with; and whichever exception \<open>e\<close> the \<open>try\<close> ends with, the answer is status 400
  when \<open>e\<close> is \<open>UnknownValueError\<close> (recognition could not decode any speech), and
  otherwise status 500 with a detail that ends with \<open>str(e)\<close>. The failure kind is told
  by the class of the exception, as the \<open>except\<close> clauses do.
\<close>

theorem speech_to_text_failure_status:
  "(\<forall>e. tempfile_name env (lit ''.wav'') (files w) = Inl e
       \<longrightarrow> fst (speech_to_text_try env content src w) = Inl e) \<and>
   (\<forall>p e. tempfile_name env (lit ''.wav'') (files w) = Inr p \<and> audio_record env content = Inl e
       \<longrightarrow> fst (speech_to_text_try env content src w) = Inl e) \<and>
   (\<forall>p a e. tempfile_name env (lit ''.wav'') (files w) = Inr p \<and> audio_record env content = Inr a \<and>
       recognize_google env a (src @ lit ''-IN'') = Inl e
       \<longrightarrow> fst (speech_to_text_try env content src w) = Inl e) \<and>
   (\<forall>p a t e. tempfile_name env (lit ''.wav'') (files w) = Inr p \<and> audio_record env content = Inr a \<and>
       recognize_google env a (src @ lit ''-IN'') = Inr t \<and> t \<noteq> [] \<and> detect env t = Inl e
       \<longrightarrow> fst (speech_to_text_try env content src w) = Inl e) \<and>
   (\<forall>e. fst (speech_to_text_try env content src w) = Inl e \<longrightarrow>
       fst (speech_to_text env content src w) =
         (if e = UnknownValueError then Raised 400 (lit ''Could not understand the speech'')
          else Raised 500 (lit ''Speech recognition failed: '' @ exc_str env e)))"
  by (auto simp add: handler_defs action_defs
      split: sum.splits exn.splits option.splits prod.splits)

text \<open>
  A silent (empty) recording is not understood: 400. A recognition service that cannot
  be reached is any other failure: 500, the detail ending with its description.
\<close>

theorem speech_to_text_failure_status_witness:
  "recognize_google sample_env [] (lit ''hi-IN'') = Inl UnknownValueError \<and>
   fst (speech_to_text sample_env [] (lit ''hi'') empty_world)
     = Raised 400 (lit ''Could not understand the speech'') \<and>
   recognize_google (sample_env\<lparr>recognize_google :=
        (\<lambda>a l. Inl (OtherError (lit ''recognition connection failed'')))\<rparr>) [] (lit ''hi-IN'')
     = Inl (OtherError (lit ''recognition connection failed'')) \<and>
   fst (speech_to_text (sample_env\<lparr>recognize_google :=
        (\<lambda>a l. Inl (OtherError (lit ''recognition connection failed'')))\<rparr>) [] (lit ''hi'') empty_world)
     = Raised 500 (lit ''Speech recognition failed: recognition connection failed'')"
proof -
  let ?down = "sample_env\<lparr>recognize_google :=
        (\<lambda>a l. Inl (OtherError (lit ''recognition connection failed'')))\<rparr>"
  have silent: "tempfile_name sample_env (lit ''.wav'') (files empty_world) = Inr (lit ''/tmp/tmp0.wav'') \<and>
      audio_record sample_env [] = Inr [] \<and>
      recognize_google sample_env [] (lit ''hi'' @ lit ''-IN'') = Inl UnknownValueError"
    by (simp add: sample_env_def lit_append)
  have down: "tempfile_name ?down (lit ''.wav'') (files empty_world) = Inr (lit ''/tmp/tmp0.wav'') \<and>
      audio_record ?down [] = Inr [] \<and>
      recognize_google ?down [] (lit ''hi'' @ lit ''-IN'')
        = Inl (OtherError (lit ''recognition connection failed''))"
    by (simp add: sample_env_def lit_append)
  note silent_case = speech_to_text_failure_status [of sample_env empty_world "[]" "lit ''hi''"]
  note silent_raised =
    silent_case [THEN conjunct2, THEN conjunct2, THEN conjunct1, rule_format, OF silent]
  note silent_answer =
    silent_case [THEN conjunct2, THEN conjunct2, THEN conjunct2, THEN conjunct2, rule_format,
      OF silent_raised]
  from silent_answer
  have one: "fst (speech_to_text sample_env [] (lit ''hi'') empty_world)
      = Raised 400 (lit ''Could not understand the speech'')"
    by simp
  note down_case = speech_to_text_failure_status [of ?down empty_world "[]" "lit ''hi''"]
  note down_raised =
    down_case [THEN conjunct2, THEN conjunct2, THEN conjunct1, rule_format, OF down]
  note down_answer =
    down_case [THEN conjunct2, THEN conjunct2, THEN conjunct2, THEN conjunct2, rule_format,
      OF down_raised]
  from down_answer
  have two: "fst (speech_to_text ?down [] (lit ''hi'') empty_world)
      = Raised 500 (lit ''Speech recognition failed: recognition connection failed'')"
    by (simp add: sample_env_def lit_append)
  from silent down one two show ?thesis
    by (simp add: lit_append)
qed


text \<open>
  C8, as the claim states it, fails: a detection failure does change the request's
  outcome. When the recording is heard as \<open>123\<close>, a non-empty text in which the detector
  finds no features, the detector's exception ends the \<open>try\<close> and the request is answered
  500, not with a result whose \<open>detected_lang\<close> is \<open>None\<close>.
\<close>

theorem detection_failure_counterexample:
  "recognize_google sample_env [1] (lit ''hi-IN'') = Inr (lit ''123'') \<and>
   lit ''123'' \<noteq> [] \<and>
   detect sample_env (lit ''123'') = Inl (OtherError (lit ''No features in text.'')) \<and>
   fst (speech_to_text sample_env [1] (lit ''hi'') empty_world) =
     Raised 500 (lit ''Speech recognition failed: No features in text.'')"
  by (simp add: handler_defs action_defs sample_env_def empty_world_def lit_append)

text \<open>
  C8, amended. For every successful \<open>/api/speech-to-text\<close> call, \<open>detected_lang\<close> is
  \<open>None\<close> when the recognized text is empty and is what language detection returns on
  the recognized text when that text is not empty; and when detection raises an
  exception on a non-empty recognized text, the call is not successful: it is answered
  400 or 500 as for any exception of that class.
\<close>

theorem detected_lang_of_success:
  "(\<forall>b. fst (speech_to_text env content src w) = Returned b \<longrightarrow>
      (\<exists>r. b = SpeechRecognition r \<and>
         (if recognized_text r = [] then detected_lang r = None
          else \<exists>d. detect env (recognized_text r) = Inr d \<and> detected_lang r = Some d))) \<and>
   (\<forall>p a t e. tempfile_name env (lit ''.wav'') (files w) = Inr p \<and> audio_record env content = Inr a \<and>
       recognize_google env a (src @ lit ''-IN'') = Inr t \<and> t \<noteq> [] \<and> detect env t = Inl e
       \<longrightarrow> fst (speech_to_text env content src w) =
         (if e = UnknownValueError then Raised 400 (lit ''Could not understand the speech'')
          else Raised 500 (lit ''Speech recognition failed: '' @ exc_str env e)))"
  by (auto simp add: handler_defs action_defs
      split: sum.splits exn.splits option.splits prod.splits if_splits)

text \<open>
  A recording heard as \<open>hello\<close> is detected as \<open>en\<close>; a recognizer that returns the
  empty text gives \<open>None\<close>.
\<close>

theorem detected_lang_of_success_witness:
  "fst (speech_to_text sample_env [2] (lit ''hi'') empty_world) =
     Returned (SpeechRecognition
       \<lparr>recognized_text = lit ''hello'', SpeechRecognitionResponse.source_lang = lit ''hi'',
        detected_lang = Some (lit ''en''), SpeechRecognitionResponse.status = lit ''success''\<rparr>) \<and>
   detect sample_env (lit ''hello'') = Inr (lit ''en'') \<and>
   fst (speech_to_text (sample_env\<lparr>recognize_google := (\<lambda>a l. Inr [])\<rparr>) [2] (lit ''hi'')
          empty_world) =
     Returned (SpeechRecognition
       \<lparr>recognized_text = [], SpeechRecognitionResponse.source_lang = lit ''hi'',
        detected_lang = None, SpeechRecognitionResponse.status = lit ''success''\<rparr>)"
proof -
  let ?mute = "sample_env\<lparr>recognize_google := (\<lambda>a l. Inr [])\<rparr>"
  let ?heard =
    "\<lparr>recognized_text = lit ''hello'', SpeechRecognitionResponse.source_lang = lit ''hi'',
      detected_lang = Some (lit ''en''), SpeechRecognitionResponse.status = lit ''success''\<rparr>"
  let ?nothing =
    "\<lparr>recognized_text = [], SpeechRecognitionResponse.source_lang = lit ''hi'',
      detected_lang = None, SpeechRecognitionResponse.status = lit ''success''\<rparr>"
  have heard: "fst (speech_to_text sample_env [2] (lit ''hi'') empty_world)
      = Returned (SpeechRecognition ?heard)"
    by (simp add: handler_defs action_defs sample_env_def empty_world_def)
  have unheard: "fst (speech_to_text ?mute [2] (lit ''hi'') empty_world)
      = Returned (SpeechRecognition ?nothing)"
    by (simp add: handler_defs action_defs sample_env_def empty_world_def)
  note on_success =
    detected_lang_of_success [of sample_env "[2]" "lit ''hi''" empty_world,
      THEN conjunct1, rule_format, OF heard]
  then have detected: "detect sample_env (lit ''hello'') = Inr (lit ''en'')"
    by auto
  from heard detected unheard show ?thesis
    by (intro conjI)
qed

section \<open>Temporary files\<close>


section \<open>The response envelope\<close>




section \<open>The language catalog\<close>

text \<open>
  C6. Every call to \<open>/api/languages\<close>, in whatever world, returns the same body, the
  catalog with the status \<open>success\<close>, and changes nothing. The catalog has exactly 22
  entries under 22 different names, its 22 codes are pairwise different, and none of
  them is the empty string.
\<close>

theorem languages_catalog:
  "(\<forall>w. get_languages w = (Returned (Languages indian_languages (lit ''success'')), w)) \<and>
   length indian_languages = 22 \<and>
   distinct (map fst indian_languages) \<and>
   distinct (map snd indian_languages) \<and>
   [] \<notin> set (map snd indian_languages)"
  by (simp add: get_languages_def indian_languages_def)

end
